theory Spec2Isabelle
  imports Main "HOL-Library.Multiset"
begin

section \<open>The OpenAPI plugin of docusaurus-plugin-openapi (src/index.ts)\<close>

text \<open>
  A shallow embedding of \<^verbatim>\<open>pluginOpenAPI\<close> and of the lifecycle hooks it returns:
  \<^verbatim>\<open>getClientModules\<close>, \<^verbatim>\<open>loadContent\<close>, \<^verbatim>\<open>contentLoaded\<close> and \<^verbatim>\<open>routesLoaded\<close>.
  The hooks close over the variables \<^verbatim>\<open>options\<close>, \<^verbatim>\<open>homePageDocsRoutePath\<close> and
  \<^verbatim>\<open>baseUrl\<close>; here the closure is a record that every hook takes as an argument.
  What the file imports from other modules (the parser, the URL and hash helpers, the file
  system, the module resolver, \<^verbatim>\<open>JSON.stringify\<close>) is a field of the record \<open>host\<close>.
\<close>

subsection \<open>JavaScript values and truthiness\<close>

text \<open>
  Modelled from the spec: the declaration of \<^verbatim>\<open>PluginOptions\<close> (\<^verbatim>\<open>./types\<close>) is not among
  the sources. The spec calls the \<^verbatim>\<open>admonitions\<close> option a configuration whose default is the
  empty object and which enables the style bundle when it is truthy, so its values are
  JavaScript values. Numbers are restricted to integers (no \<^verbatim>\<open>NaN\<close>).
\<close>

datatype js_value =
    JUndefined
  | JNull
  | JBoolean bool
  | JNumber int
  | JString string
  | JObject "(string \<times> js_value) list"

text \<open>\<^verbatim>\<open>if (v)\<close>: the falsy values are undefined, null, false, 0 and the empty string.\<close>

fun truthy :: "js_value \<Rightarrow> bool" where
  "truthy JUndefined = False"
| "truthy JNull = False"
| "truthy (JBoolean b) = b"
| "truthy (JNumber n) = (n \<noteq> 0)"
| "truthy (JString s) = (s \<noteq> [])"
| "truthy (JObject fields) = True"

datatype error = TypeError | HostError string

subsection \<open>Options\<close>

text \<open>
  An entry of a plugin list is a module, or the pair \<^verbatim>\<open>[module, options]\<close>; a module is
  named by its import specifier.
\<close>

datatype plugin_entry = PluginModule string | PluginTuple string js_value

text \<open>
  Modelled from the spec: \<^verbatim>\<open>PluginOptions\<close> is declared in \<^verbatim>\<open>./types\<close>, which is not among
  the sources; the fields are those of \<^verbatim>\<open>DEFAULT_OPTIONS\<close>.
\<close>

record PluginOptions =
  routeBasePath :: string
  openapiPath :: string
  apiLayoutComponent :: string
  apiItemComponent :: string
  remarkPlugins :: "plugin_entry list"
  rehypePlugins :: "plugin_entry list"
  admonitions :: js_value
  sidebarLabel :: string
  pageId :: string

text \<open>\<^verbatim>\<open>Partial<PluginOptions>\<close>: every field may be absent (\<open>None\<close>).\<close>

record Partial_PluginOptions =
  routeBasePath_opt :: "string option"
  openapiPath_opt :: "string option"
  apiLayoutComponent_opt :: "string option"
  apiItemComponent_opt :: "string option"
  remarkPlugins_opt :: "plugin_entry list option"
  rehypePlugins_opt :: "plugin_entry list option"
  admonitions_opt :: "js_value option"
  sidebarLabel_opt :: "string option"
  pageId_opt :: "string option"

definition DEFAULT_OPTIONS :: PluginOptions where
  "DEFAULT_OPTIONS =
     \<lparr> routeBasePath = ''api'',
       openapiPath = '''',
       apiLayoutComponent = ''@theme/ApiPage'',
       apiItemComponent = ''@theme/ApiItem'',
       remarkPlugins = [],
       rehypePlugins = [],
       admonitions = JObject [],
       sidebarLabel = ''summary'',
       pageId = ''summary'' \<rparr>"

text \<open>One field of \<^verbatim>\<open>{ ...d, ...o }\<close>: the later object wins where it has the field.\<close>

definition spread_field :: "'a \<Rightarrow> 'a option \<Rightarrow> 'a" where
  "spread_field d v = (case v of None \<Rightarrow> d | Some x \<Rightarrow> x)"

text \<open>Line 41: \<^verbatim>\<open>{ ...DEFAULT_OPTIONS, ...opts }\<close>.\<close>

definition spread_options :: "PluginOptions \<Rightarrow> Partial_PluginOptions \<Rightarrow> PluginOptions" where
  "spread_options d opts =
     \<lparr> routeBasePath = spread_field (routeBasePath d) (routeBasePath_opt opts),
       openapiPath = spread_field (openapiPath d) (openapiPath_opt opts),
       apiLayoutComponent = spread_field (apiLayoutComponent d) (apiLayoutComponent_opt opts),
       apiItemComponent = spread_field (apiItemComponent d) (apiItemComponent_opt opts),
       remarkPlugins = spread_field (remarkPlugins d) (remarkPlugins_opt opts),
       rehypePlugins = spread_field (rehypePlugins d) (rehypePlugins_opt opts),
       admonitions = spread_field (admonitions d) (admonitions_opt opts),
       sidebarLabel = spread_field (sidebarLabel d) (sidebarLabel_opt opts),
       pageId = spread_field (pageId d) (pageId_opt opts) \<rparr>"

text \<open>The options object in which no field is given: \<^verbatim>\<open>{}\<close>.\<close>

definition no_opts :: Partial_PluginOptions where
  "no_opts =
     \<lparr> routeBasePath_opt = None, openapiPath_opt = None, apiLayoutComponent_opt = None,
       apiItemComponent_opt = None, remarkPlugins_opt = None, rehypePlugins_opt = None,
       admonitions_opt = None, sidebarLabel_opt = None, pageId_opt = None \<rparr>"

subsection \<open>The plugin closure\<close>

record LoadContext =
  baseUrl :: string
  generatedFilesDir :: string

text \<open>The variables of \<^verbatim>\<open>pluginOpenAPI\<close> that the hooks read.\<close>

record plugin =
  options :: PluginOptions
  homePageDocsRoutePath :: string
  context_baseUrl :: string

text \<open>The import \<^verbatim>\<open>admonitions from "remark-admonitions"\<close>.\<close>

definition admonitions_module :: string where
  "admonitions_module = ''remark-admonitions''"

text \<open>
  Lines 41 to 51. The record \<^verbatim>\<open>options\<close> is built by the spread, the home path is read from
  it, and then, when \<^verbatim>\<open>options.admonitions\<close> is truthy, \<^verbatim>\<open>options.remarkPlugins\<close> is assigned
  the concatenation of its value with the entry \<^verbatim>\<open>[admonitions, options.admonitions]\<close>.
\<close>

definition pluginOpenAPI :: "LoadContext \<Rightarrow> Partial_PluginOptions \<Rightarrow> plugin" where
  "pluginOpenAPI context opts =
     (let options0 = spread_options DEFAULT_OPTIONS opts;
          home = (if routeBasePath options0 = '''' then ''/'' else routeBasePath options0);
          options1 =
            (if truthy (admonitions options0)
             then options0 \<lparr> remarkPlugins :=
                    remarkPlugins options0 @ [PluginTuple admonitions_module (admonitions options0)] \<rparr>
             else options0)
      in \<lparr> options = options1, homePageDocsRoutePath = home, context_baseUrl = baseUrl context \<rparr>)"

subsection \<open>Parsed content\<close>

text \<open>
  Modelled from the spec: \<^verbatim>\<open>ApiSection\<close>, its items and \<^verbatim>\<open>LoadedContent\<close> are declared in
  \<^verbatim>\<open>./types\<close>, which is not among the sources. An item has the fields that \<^verbatim>\<open>contentLoaded\<close>
  reads by name (\<^verbatim>\<open>permalink\<close>, \<^verbatim>\<open>hashId\<close>, \<^verbatim>\<open>deprecated\<close>, \<^verbatim>\<open>description\<close>) and the rest of the
  operation record (\<^verbatim>\<open>summary\<close>, \<^verbatim>\<open>operationId\<close>, ...) as a list of named values.
\<close>

record ApiItem =
  permalink :: string
  hashId :: string
  deprecated :: bool
  description :: string
  other_fields :: "(string \<times> js_value) list"

record ApiSection =
  title :: string
  items :: "ApiItem list"

record LoadedContent =
  openapiData :: "ApiSection list"

text \<open>\<^verbatim>\<open>item[key]\<close>: the value of the field named \<open>key\<close>, undefined when there is none.\<close>

definition item_get :: "ApiItem \<Rightarrow> string \<Rightarrow> js_value" where
  "item_get item key =
     (if key = ''permalink'' then JString (permalink item)
      else if key = ''hashId'' then JString (hashId item)
      else if key = ''deprecated'' then JBoolean (deprecated item)
      else if key = ''description'' then JString (description item)
      else (case map_of (other_fields item) key of None \<Rightarrow> JUndefined | Some v \<Rightarrow> v))"

subsection \<open>Sidebar and routes\<close>

record sidebar_link =
  href :: string
  link_label :: js_value
  link_type :: string
  link_deprecated :: bool

record sidebar_category =
  collapsed :: bool
  category_type :: string
  category_label :: string
  category_items :: "sidebar_link list"

text \<open>
  A value of the \<^verbatim>\<open>modules\<close> object of a route: the path of a data file, or the object
  \<^verbatim>\<open>{ __import, path }\<close>.
\<close>

datatype route_module = ModulePath string | ModuleImport bool string

text \<open>
  \<^verbatim>\<open>RouteConfig\<close> of the host, with the fields this file writes and reads. An absent
  \<^verbatim>\<open>routes\<close> or \<^verbatim>\<open>modules\<close> is the empty list.
\<close>

datatype RouteConfig =
  RouteConfig
    (path: string)
    (component: string)
    (exact: bool)
    (modules: "(string \<times> route_module) list")
    (routes: "RouteConfig list")

subsection \<open>The host and the imported modules\<close>

text \<open>
  What the file calls and does not define: \<^verbatim>\<open>fs.existsSync\<close>, \<^verbatim>\<open>loadOpenapi\<close> (which may
  fail), \<^verbatim>\<open>normalizeUrl\<close>, \<^verbatim>\<open>docuHash\<close>, \<^verbatim>\<open>require.resolve\<close>, \<^verbatim>\<open>JSON.stringify\<close> at the two
  types it is used at, and the path that \<^verbatim>\<open>createData\<close> resolves to for a file name.
\<close>

record host =
  existsSync :: "string \<Rightarrow> bool"
  loadOpenapi :: "string \<Rightarrow> string \<Rightarrow> string \<Rightarrow> PluginOptions \<Rightarrow> error + ApiSection list"
  normalizeUrl :: "string list \<Rightarrow> string"
  docuHash :: "string \<Rightarrow> string"
  require_resolve :: "string \<Rightarrow> string"
  JSON_stringify_item :: "ApiItem \<Rightarrow> string"
  JSON_stringify_metadata :: "sidebar_category list \<Rightarrow> (string \<rightharpoonup> string) \<Rightarrow> string"
  createData_path :: "string \<Rightarrow> string"

subsection \<open>getClientModules and loadContent\<close>

text \<open>Lines 66 to 74.\<close>

definition getClientModules :: "host \<Rightarrow> plugin \<Rightarrow> string list" where
  "getClientModules h p =
     (let modules0 = [] in
      let modules1 =
        (if truthy (admonitions (options p))
         then modules0 @ [require_resolve h ''remark-admonitions/styles/infima.css'']
         else modules0)
      in modules1)"

text \<open>
  Lines 76 to 91. The result is \<open>Inr None\<close> for \<^verbatim>\<open>null\<close>, \<open>Inr (Some c)\<close> for the object
  \<^verbatim>\<open>{ openapiData }\<close>, and \<open>Inl e\<close> when the awaited parser fails with \<open>e\<close>. A string is
  falsy exactly when it is empty.
\<close>

definition loadContent :: "host \<Rightarrow> plugin \<Rightarrow> error + LoadedContent option" where
  "loadContent h p =
     (let routeBasePath' = routeBasePath (options p);
          openapiPath' = openapiPath (options p)
      in if openapiPath' = [] \<or> \<not> existsSync h openapiPath' then Inr None
         else (case loadOpenapi h openapiPath' (context_baseUrl p) routeBasePath' (options p) of
                 Inl e \<Rightarrow> Inl e
               | Inr data \<Rightarrow> Inr (Some \<lparr> openapiData = data \<rparr>)))"

subsection \<open>The actions of the host\<close>

text \<open>
  \<^verbatim>\<open>createData\<close> and \<^verbatim>\<open>addRoute\<close> act on the host. The state records the data files asked
  for, each with its name and content, and the routes registered, in the order of the calls.
  The files are a multiset: the item functions are asynchronous and the source does not fix
  the order in which their calls of \<^verbatim>\<open>createData\<close> interleave. A promise is a computation on
  that state; \<^verbatim>\<open>createData\<close> is taken to succeed.
\<close>

record actions_log =
  created :: "(string \<times> string) multiset"
  added :: "RouteConfig list"

type_synonym 'a promise = "actions_log \<Rightarrow> 'a \<times> actions_log"

definition createData :: "host \<Rightarrow> string \<Rightarrow> string \<Rightarrow> string promise" where
  "createData h name data s =
     (createData_path h name, s \<lparr> created := created s + {#(name, data)#} \<rparr>)"

definition addRoute :: "RouteConfig \<Rightarrow> actions_log \<Rightarrow> actions_log" where
  "addRoute config s = s \<lparr> added := added s @ [config] \<rparr>"

text \<open>\<^verbatim>\<open>await Promise.all(ps)\<close>: the results of all promises, in the order of the list.\<close>

fun Promise_all :: "'a promise list \<Rightarrow> 'a list promise" where
  "Promise_all [] s = ([], s)"
| "Promise_all (p # ps) s =
     (case p s of (x, s1) \<Rightarrow>
        (case Promise_all ps s1 of (xs, s2) \<Rightarrow> (x # xs, s2)))"

subsection \<open>contentLoaded\<close>

text \<open>Lines 102 to 116.\<close>

definition sidebar :: "plugin \<Rightarrow> ApiSection list \<Rightarrow> sidebar_category list" where
  "sidebar p data =
     map (\<lambda>category.
            \<lparr> collapsed = True,
              category_type = ''category'',
              category_label = title category,
              category_items =
                map (\<lambda>item.
                       \<lparr> href = permalink item,
                         link_label = item_get item (sidebarLabel (options p)),
                         link_type = ''link'',
                         link_deprecated = deprecated item \<rparr>)
                    (items category) \<rparr>)
         data"

text \<open>Line 121: the template literal \<^verbatim>\<open>site-${routeBasePath}-${item.hashId}\<close>.\<close>

definition item_pageId :: "plugin \<Rightarrow> ApiItem \<Rightarrow> string" where
  "item_pageId p item = ''site-'' @ routeBasePath (options p) @ ''-'' @ hashId item"

text \<open>Lines 120 to 143: the asynchronous function applied to every item.\<close>

definition item_promise :: "host \<Rightarrow> plugin \<Rightarrow> ApiItem \<Rightarrow> RouteConfig promise" where
  "item_promise h p item s =
     (let pageId' = item_pageId p item in
      case createData h (docuHash h pageId' @ ''.json'') (JSON_stringify_item h item) s of
        (openapiDataPath, s1) \<Rightarrow>
      case createData h (docuHash h pageId' @ ''-description.md'') (description item) s1 of
        (markdown, s2) \<Rightarrow>
      (RouteConfig (permalink item) (apiItemComponent (options p)) True
         [(''openapi'', ModulePath openapiDataPath), (''content'', ModuleImport True markdown)]
         [],
       s2))"

text \<open>Lines 118 to 145: one promise for every item of every section, flattened.\<close>

definition promises :: "host \<Rightarrow> plugin \<Rightarrow> ApiSection list \<Rightarrow> RouteConfig promise list" where
  "promises h p data =
     concat (map (\<lambda>section. map (\<lambda>item. item_promise h p item) (items section)) data)"

text \<open>
  \<^verbatim>\<open>acc[key] = v\<close> on an object created by \<^verbatim>\<open>{}\<close>, for a string \<open>v\<close>. The key
  \<^verbatim>\<open>__proto__\<close> is the accessor inherited from \<^verbatim>\<open>Object.prototype\<close>, whose setter ignores a
  value that is neither an object nor null: no property is created.
\<close>

definition object_set :: "(string \<rightharpoonup> string) \<Rightarrow> string \<Rightarrow> string \<Rightarrow> (string \<rightharpoonup> string)" where
  "object_set acc key v = (if key = ''__proto__'' then acc else acc(key \<mapsto> v))"

text \<open>Lines 149 to 155: the \<^verbatim>\<open>reduce\<close> over the routes, from the empty object.\<close>

definition permalinkToSidebar :: "RouteConfig list \<Rightarrow> (string \<rightharpoonup> string)" where
  "permalinkToSidebar rs = foldl (\<lambda>acc item. object_set acc (path item) ''sidebar'') Map.empty rs"

text \<open>\<^verbatim>\<open>Object.keys\<close> of an array without holes: its indices.\<close>

definition Object_keys :: "'a list \<Rightarrow> nat list" where
  "Object_keys xs = [0..<length xs]"

text \<open>Lines 160 and 161.\<close>

definition apiBaseRoute :: "host \<Rightarrow> plugin \<Rightarrow> string" where
  "apiBaseRoute h p = normalizeUrl h [context_baseUrl p, routeBasePath (options p)]"

definition basePath :: "host \<Rightarrow> plugin \<Rightarrow> string" where
  "basePath h p = (if apiBaseRoute h p = ''/'' then [] else apiBaseRoute h p)"

text \<open>Lines 93 to 188. \<open>None\<close> is the content \<^verbatim>\<open>null\<close>.\<close>

definition contentLoaded :: "host \<Rightarrow> plugin \<Rightarrow> LoadedContent option \<Rightarrow> actions_log \<Rightarrow> actions_log" where
  "contentLoaded h p content s =
     (case content of
        None \<Rightarrow> s
      | Some c \<Rightarrow>
          if length (Object_keys (openapiData c)) = 0 then s
          else
            (let data = openapiData c;
                 sidebar' = sidebar p data
             in case Promise_all (promises h p data) s of (routes', s1) \<Rightarrow>
               (let permalinkToSidebar' = permalinkToSidebar routes'
                in case createData h
                          (docuHash h (normalizeUrl h [apiBaseRoute h p, '':route'']) @ ''.json'')
                          (JSON_stringify_metadata h sidebar' permalinkToSidebar') s1 of
                     (docsBaseMetadataPath, s2) \<Rightarrow>
                       addRoute
                         (RouteConfig (basePath h p) (apiLayoutComponent (options p)) False
                            [(''docsMetadata'', ModulePath docsBaseMetadataPath)]
                            routes')
                         s2)))"

subsection \<open>routesLoaded\<close>

text \<open>
  The route list is a JavaScript array, which \<^verbatim>\<open>delete\<close> leaves with a hole at the deleted
  index: a slot is \<open>Some r\<close> for a route and \<open>None\<close> for a hole. \<^verbatim>\<open>filter\<close> skips holes;
  \<^verbatim>\<open>findIndex\<close> visits every index from 0 and passes \<^verbatim>\<open>undefined\<close> for a hole; \<^verbatim>\<open>delete\<close> at an
  index that is not one of the array (such as -1) removes nothing, and in no case changes
  the length.
\<close>

definition array_filter :: "('a \<Rightarrow> bool) \<Rightarrow> 'a option list \<Rightarrow> 'a option list" where
  "array_filter f xs = filter (\<lambda>slot. case slot of None \<Rightarrow> False | Some x \<Rightarrow> f x) xs"

fun findIndex_from :: "nat \<Rightarrow> ('a option \<Rightarrow> error + bool) \<Rightarrow> 'a option list \<Rightarrow> error + int" where
  "findIndex_from k f [] = Inr (- 1)"
| "findIndex_from k f (slot # rest) =
     (case f slot of
        Inl e \<Rightarrow> Inl e
      | Inr b \<Rightarrow> if b then Inr (int k) else findIndex_from (Suc k) f rest)"

definition findIndex :: "('a option \<Rightarrow> error + bool) \<Rightarrow> 'a option list \<Rightarrow> error + int" where
  "findIndex f xs = findIndex_from 0 f xs"

definition array_delete :: "'a option list \<Rightarrow> int \<Rightarrow> 'a option list" where
  "array_delete xs i = (if 0 \<le> i \<and> i < int (length xs) then xs[nat i := None] else xs)"

text \<open>
  Lines 198 to 200, the callback of \<^verbatim>\<open>findIndex\<close>: reading \<^verbatim>\<open>component\<close> of \<^verbatim>\<open>undefined\<close>
  throws a TypeError.
\<close>

definition is_docsHomePageRoute :: "plugin \<Rightarrow> RouteConfig option \<Rightarrow> error + bool" where
  "is_docsHomePageRoute p route =
     (case route of
        None \<Rightarrow> Inl TypeError
      | Some r \<Rightarrow>
          Inr (component r = apiLayoutComponent (options p) \<and> path r = homePageDocsRoutePath p))"

text \<open>Lines 190 to 205. The result is the array \<^verbatim>\<open>routes\<close> after the call.\<close>

definition routesLoaded :: "plugin \<Rightarrow> RouteConfig option list \<Rightarrow> error + RouteConfig option list" where
  "routesLoaded p routes' =
     (let homeDocsRoutes =
            array_filter (\<lambda>routeConfig. path routeConfig = homePageDocsRoutePath p) routes'
      in if length homeDocsRoutes > 1 then
           (case findIndex (is_docsHomePageRoute p) routes' of
              Inl e \<Rightarrow> Inl e
            | Inr docsHomePageRouteIndex \<Rightarrow> Inr (array_delete routes' docsHomePageRouteIndex))
         else Inr routes')"


section \<open>Sample inputs\<close>

text \<open>A context, a host and inputs at which the theorems below are evaluated.\<close>

definition example_context :: LoadContext where
  "example_context = \<lparr> baseUrl = ''/'', generatedFilesDir = ''.docusaurus'' \<rparr>"

definition example_host :: host where
  "example_host =
     \<lparr> existsSync = (\<lambda>f. f = ''openapi.json''),
       loadOpenapi = (\<lambda>f b r opts. if f = ''openapi.json'' then Inr [] else Inl (HostError f)),
       normalizeUrl = (\<lambda>parts. concat parts),
       docuHash = (\<lambda>x. x),
       require_resolve = (\<lambda>m. ''node_modules/'' @ m),
       JSON_stringify_item = (\<lambda>item. hashId item),
       JSON_stringify_metadata = (\<lambda>sb m. ''{}''),
       createData_path = (\<lambda>name. ''gen/'' @ name) \<rparr>"

definition example_item :: "string \<Rightarrow> string \<Rightarrow> ApiItem" where
  "example_item link ident =
     \<lparr> permalink = link, hashId = ident, deprecated = False, description = ''# '' @ ident,
       other_fields = [(''summary'', JString ident)] \<rparr>"

definition example_content :: LoadedContent where
  "example_content =
     \<lparr> openapiData =
         [\<lparr> title = ''pets'', items = [example_item ''/api/a'' ''a'', example_item ''/api/b'' ''b''] \<rparr>,
          \<lparr> title = ''store'', items = [example_item ''/api/c'' ''c''] \<rparr>] \<rparr>"

definition single_content :: LoadedContent where
  "single_content = \<lparr> openapiData = [\<lparr> title = ''pets'', items = [example_item ''/api/a'' ''a''] \<rparr>] \<rparr>"

definition duplicate_content :: LoadedContent where
  "duplicate_content =
     \<lparr> openapiData =
         [\<lparr> title = ''pets'', items = [example_item ''/api/a'' ''a'', example_item ''/api/a'' ''b''] \<rparr>] \<rparr>"

definition empty_log :: actions_log where
  "empty_log = \<lparr> created = {#}, added = [] \<rparr>"

definition example_routes :: "RouteConfig list" where
  "example_routes =
     [RouteConfig ''/'' ''@theme/Home'' True [] [],
      RouteConfig ''api'' ''@site/src/pages/api.js'' True [] [],
      RouteConfig ''api'' ''@theme/ApiPage'' False [] []]"

section \<open>Properties\<close>

text \<open>
  Every field of the options other than \<^verbatim>\<open>remarkPlugins\<close> has, in the closure, the value the
  spread gave it.
\<close>

lemma options_pluginOpenAPI_fields:
  "routeBasePath (options (pluginOpenAPI context opts)) = routeBasePath (spread_options DEFAULT_OPTIONS opts)"
  "openapiPath (options (pluginOpenAPI context opts)) = openapiPath (spread_options DEFAULT_OPTIONS opts)"
  "apiLayoutComponent (options (pluginOpenAPI context opts)) = apiLayoutComponent (spread_options DEFAULT_OPTIONS opts)"
  "apiItemComponent (options (pluginOpenAPI context opts)) = apiItemComponent (spread_options DEFAULT_OPTIONS opts)"
  "rehypePlugins (options (pluginOpenAPI context opts)) = rehypePlugins (spread_options DEFAULT_OPTIONS opts)"
  "admonitions (options (pluginOpenAPI context opts)) = admonitions (spread_options DEFAULT_OPTIONS opts)"
  "sidebarLabel (options (pluginOpenAPI context opts)) = sidebarLabel (spread_options DEFAULT_OPTIONS opts)"
  "pageId (options (pluginOpenAPI context opts)) = pageId (spread_options DEFAULT_OPTIONS opts)"
  by (simp_all add: pluginOpenAPI_def Let_def)


lemma example_plugin:
  "homePageDocsRoutePath (pluginOpenAPI example_context no_opts) = ''api''"
  "apiLayoutComponent (options (pluginOpenAPI example_context no_opts)) = ''@theme/ApiPage''"
  "apiItemComponent (options (pluginOpenAPI example_context no_opts)) = ''@theme/ApiItem''"
  "routeBasePath (options (pluginOpenAPI example_context no_opts)) = ''api''"
  "sidebarLabel (options (pluginOpenAPI example_context no_opts)) = ''summary''"
  "context_baseUrl (pluginOpenAPI example_context no_opts) = ''/''"
  by (simp_all add: pluginOpenAPI_def Let_def spread_options_def spread_field_def
      DEFAULT_OPTIONS_def no_opts_def example_context_def)

text \<open>
  Claim C8. \<^verbatim>\<open>getClientModules\<close> returns the list whose one element is the resolved
  stylesheet \<^verbatim>\<open>remark-admonitions/styles/infima.css\<close> when the \<^verbatim>\<open>admonitions\<close> option is truthy
  and the empty list when it is not. The option is the one the user gave, or the empty
  object when the user gave none; the empty object is truthy, so with no user options the
  stylesheet is returned.
\<close>

theorem getClientModules_admonitions:
  "(truthy (admonitions (options (pluginOpenAPI context opts))) \<longrightarrow>
      getClientModules h (pluginOpenAPI context opts) =
        [require_resolve h ''remark-admonitions/styles/infima.css'']) \<and>
   (\<not> truthy (admonitions (options (pluginOpenAPI context opts))) \<longrightarrow>
      getClientModules h (pluginOpenAPI context opts) = []) \<and>
   admonitions (options (pluginOpenAPI context opts)) =
     (case admonitions_opt opts of None \<Rightarrow> JObject [] | Some v \<Rightarrow> v) \<and>
   admonitions (options (pluginOpenAPI context no_opts)) = JObject [] \<and>
   getClientModules h (pluginOpenAPI context no_opts) =
     [require_resolve h ''remark-admonitions/styles/infima.css'']"
  by (simp add: getClientModules_def options_pluginOpenAPI_fields spread_options_def
      spread_field_def DEFAULT_OPTIONS_def no_opts_def split: option.splits)

text \<open>
  Claim C8 at three inputs: no user options, \<^verbatim>\<open>admonitions: false\<close>, and a non-empty
  \<^verbatim>\<open>admonitions\<close> object.
\<close>

theorem getClientModules_admonitions_witness:
  "getClientModules example_host (pluginOpenAPI example_context no_opts) =
     [''node_modules/remark-admonitions/styles/infima.css''] \<and>
   getClientModules example_host
     (pluginOpenAPI example_context (no_opts \<lparr> admonitions_opt := Some (JBoolean False) \<rparr>)) = [] \<and>
   getClientModules example_host
     (pluginOpenAPI example_context (no_opts \<lparr> admonitions_opt := Some (JObject [(''tag'', JString '':::'')]) \<rparr>)) =
     [''node_modules/remark-admonitions/styles/infima.css'']"
  using getClientModules_admonitions [of example_context no_opts example_host]
    getClientModules_admonitions [of example_context "no_opts \<lparr> admonitions_opt := Some (JBoolean False) \<rparr>" example_host]
    getClientModules_admonitions [of example_context "no_opts \<lparr> admonitions_opt := Some (JObject [(''tag'', JString '':::'')]) \<rparr>" example_host]
  by (simp add: example_host_def no_opts_def)

text \<open>
  Claim C2, as amended. After the spread, \<^verbatim>\<open>pluginOpenAPI\<close> assigns one field of the options
  record and no other: when \<^verbatim>\<open>admonitions\<close> is truthy, \<^verbatim>\<open>remarkPlugins\<close> becomes the merged
  list followed by the entry \<^verbatim>\<open>[admonitions, options.admonitions]\<close>; when \<^verbatim>\<open>admonitions\<close> is
  falsy, the record the hooks read is the merged record. The hooks take the record as an
  argument and return none, so they cannot change it.
\<close>

theorem options_frame:
  "routeBasePath (options (pluginOpenAPI context opts)) = routeBasePath (spread_options DEFAULT_OPTIONS opts) \<and>
   openapiPath (options (pluginOpenAPI context opts)) = openapiPath (spread_options DEFAULT_OPTIONS opts) \<and>
   apiLayoutComponent (options (pluginOpenAPI context opts)) = apiLayoutComponent (spread_options DEFAULT_OPTIONS opts) \<and>
   apiItemComponent (options (pluginOpenAPI context opts)) = apiItemComponent (spread_options DEFAULT_OPTIONS opts) \<and>
   rehypePlugins (options (pluginOpenAPI context opts)) = rehypePlugins (spread_options DEFAULT_OPTIONS opts) \<and>
   admonitions (options (pluginOpenAPI context opts)) = admonitions (spread_options DEFAULT_OPTIONS opts) \<and>
   sidebarLabel (options (pluginOpenAPI context opts)) = sidebarLabel (spread_options DEFAULT_OPTIONS opts) \<and>
   pageId (options (pluginOpenAPI context opts)) = pageId (spread_options DEFAULT_OPTIONS opts) \<and>
   (truthy (admonitions (spread_options DEFAULT_OPTIONS opts)) \<longrightarrow>
      remarkPlugins (options (pluginOpenAPI context opts)) =
        remarkPlugins (spread_options DEFAULT_OPTIONS opts) @
          [PluginTuple admonitions_module (admonitions (spread_options DEFAULT_OPTIONS opts))]) \<and>
   (\<not> truthy (admonitions (spread_options DEFAULT_OPTIONS opts)) \<longrightarrow>
      options (pluginOpenAPI context opts) = spread_options DEFAULT_OPTIONS opts)"
  by (simp add: pluginOpenAPI_def Let_def)

text \<open>
  Claim C2, as amended, with no user options (the entry is appended) and with
  \<^verbatim>\<open>admonitions: null\<close> (the merged record is kept).
\<close>

theorem options_frame_witness:
  "remarkPlugins (options (pluginOpenAPI example_context no_opts)) =
     [PluginTuple ''remark-admonitions'' (JObject [])] \<and>
   options (pluginOpenAPI example_context (no_opts \<lparr> admonitions_opt := Some JNull \<rparr>)) =
     DEFAULT_OPTIONS \<lparr> admonitions := JNull \<rparr>"
  using options_frame [of example_context no_opts]
    options_frame [of example_context "no_opts \<lparr> admonitions_opt := Some JNull \<rparr>"]
  by (simp add: spread_options_def spread_field_def DEFAULT_OPTIONS_def no_opts_def
      admonitions_module_def)

text \<open>
  Claim C2 as stated fails with no user options: the spread gives the empty
  \<^verbatim>\<open>remarkPlugins\<close>, and the record the hooks read has one entry in it.
\<close>

theorem options_immutable_counterexample:
  "options (pluginOpenAPI example_context no_opts) \<noteq> spread_options DEFAULT_OPTIONS no_opts \<and>
   remarkPlugins (spread_options DEFAULT_OPTIONS no_opts) = [] \<and>
   remarkPlugins (options (pluginOpenAPI example_context no_opts)) =
     [PluginTuple ''remark-admonitions'' (JObject [])]"
  by (simp add: pluginOpenAPI_def Let_def spread_options_def spread_field_def DEFAULT_OPTIONS_def
      no_opts_def admonitions_module_def)

text \<open>
  Claim C5. \<^verbatim>\<open>loadContent\<close> returns \<^verbatim>\<open>null\<close>, and not an error, when the user gave no
  \<^verbatim>\<open>openapiPath\<close>; it returns \<^verbatim>\<open>null\<close> exactly when the configured path is the empty string
  or names no existing file; otherwise it calls the parser on the configured path, the base
  URL, the route base path and the options, and returns the parser's output in the object
  \<^verbatim>\<open>{ openapiData }\<close>, or fails as the parser failed.
\<close>

theorem loadContent_result:
  "(openapiPath_opt opts = None \<longrightarrow> loadContent h (pluginOpenAPI context opts) = Inr None) \<and>
   (loadContent h (pluginOpenAPI context opts) = Inr None) =
     (openapiPath (options (pluginOpenAPI context opts)) = [] \<or>
      \<not> existsSync h (openapiPath (options (pluginOpenAPI context opts)))) \<and>
   (openapiPath (options (pluginOpenAPI context opts)) \<noteq> [] \<and>
    existsSync h (openapiPath (options (pluginOpenAPI context opts))) \<longrightarrow>
      loadContent h (pluginOpenAPI context opts) =
        (case loadOpenapi h (openapiPath (options (pluginOpenAPI context opts))) (baseUrl context)
                (routeBasePath (options (pluginOpenAPI context opts)))
                (options (pluginOpenAPI context opts)) of
           Inl e \<Rightarrow> Inl e
         | Inr data \<Rightarrow> Inr (Some \<lparr> openapiData = data \<rparr>)))"
proof -
  have ctx: "context_baseUrl (pluginOpenAPI context opts) = baseUrl context"
    by (simp add: pluginOpenAPI_def Let_def)
  have unset: "openapiPath_opt opts = None \<Longrightarrow> openapiPath (options (pluginOpenAPI context opts)) = []"
    by (simp add: options_pluginOpenAPI_fields spread_options_def spread_field_def DEFAULT_OPTIONS_def)
  show ?thesis
    using unset by (auto simp: loadContent_def Let_def ctx split: sum.splits)
qed

text \<open>
  Claim C5 with no path, with a path to a missing file, and with a path to an existing
  file.
\<close>

theorem loadContent_result_witness:
  "loadContent example_host (pluginOpenAPI example_context no_opts) = Inr None \<and>
   loadContent example_host
     (pluginOpenAPI example_context (no_opts \<lparr> openapiPath_opt := Some ''missing.yaml'' \<rparr>)) = Inr None \<and>
   loadContent example_host
     (pluginOpenAPI example_context (no_opts \<lparr> openapiPath_opt := Some ''openapi.json'' \<rparr>)) =
     Inr (Some \<lparr> openapiData = [] \<rparr>)"
  using loadContent_result [of no_opts example_host example_context]
    loadContent_result [of "no_opts \<lparr> openapiPath_opt := Some ''missing.yaml'' \<rparr>" example_host example_context]
    loadContent_result [of "no_opts \<lparr> openapiPath_opt := Some ''openapi.json'' \<rparr>" example_host example_context]
  by (simp add: options_pluginOpenAPI_fields spread_options_def spread_field_def DEFAULT_OPTIONS_def
      no_opts_def example_host_def)

text \<open>
  Claim C6. When the content is \<^verbatim>\<open>null\<close> or has no section, \<^verbatim>\<open>contentLoaded\<close> leaves the
  state of the host as it was: it has called neither \<^verbatim>\<open>createData\<close> nor \<^verbatim>\<open>addRoute\<close>, each
  of which adds to that state.
\<close>

theorem contentLoaded_noop:
  "content = None \<or> (\<exists>c. content = Some c \<and> openapiData c = []) \<Longrightarrow>
     contentLoaded h p content s = s"
  by (auto simp: contentLoaded_def Object_keys_def)

text \<open>
  Claim C6 at the content \<^verbatim>\<open>null\<close> and at the content with an empty list of sections.
\<close>

theorem contentLoaded_noop_witness:
  "contentLoaded example_host (pluginOpenAPI example_context no_opts) None empty_log = empty_log \<and>
   contentLoaded example_host (pluginOpenAPI example_context no_opts)
     (Some \<lparr> openapiData = [] \<rparr>) empty_log = empty_log"
  using contentLoaded_noop [of None example_host "pluginOpenAPI example_context no_opts" empty_log]
    contentLoaded_noop [of "Some \<lparr> openapiData = [] \<rparr>" example_host
      "pluginOpenAPI example_context no_opts" empty_log]
  by simp

text \<open>
  The promises of \<^verbatim>\<open>contentLoaded\<close>: what one item function returns and adds to the state, and
  what awaiting all of them does.
\<close>

lemma promises_flat: "promises h p data = map (item_promise h p) (concat (map items data))"
  by (simp add: promises_def map_concat comp_def)

lemma item_promise_apply:
  "item_promise h p item s =
     (RouteConfig (permalink item) (apiItemComponent (options p)) True
        [(''openapi'', ModulePath (createData_path h (docuHash h (item_pageId p item) @ ''.json''))),
         (''content'', ModuleImport True
            (createData_path h (docuHash h (item_pageId p item) @ ''-description.md'')))]
        [],
      s \<lparr> created := created s +
            mset [(docuHash h (item_pageId p item) @ ''.json'', JSON_stringify_item h item),
                  (docuHash h (item_pageId p item) @ ''-description.md'', description item)] \<rparr>)"
  by (simp add: item_promise_def createData_def Let_def)

lemma Promise_all_map:
  assumes "\<And>x s. f x s = (g x, s \<lparr> created := created s + mset (k x) \<rparr>)"
  shows "Promise_all (map f xs) s =
           (map g xs, s \<lparr> created := created s + mset (concat (map k xs)) \<rparr>)"
  by (induction xs arbitrary: s) (simp_all add: assms)

lemma Promise_all_item_promise:
  "Promise_all (map (item_promise h p) its) s =
     (map (\<lambda>item. RouteConfig (permalink item) (apiItemComponent (options p)) True
                [(''openapi'', ModulePath (createData_path h (docuHash h (item_pageId p item) @ ''.json''))),
                 (''content'', ModuleImport True
                    (createData_path h (docuHash h (item_pageId p item) @ ''-description.md'')))]
                []) its,
      s \<lparr> created := created s +
            mset (concat (map (\<lambda>item. [(docuHash h (item_pageId p item) @ ''.json'', JSON_stringify_item h item),
                                       (docuHash h (item_pageId p item) @ ''-description.md'', description item)])
                        its)) \<rparr>)"
  by (rule Promise_all_map) (rule item_promise_apply)

text \<open>
  What \<^verbatim>\<open>contentLoaded\<close> does on a content with at least one section: two data files for
  every item, then the metadata file, then one route whose \<^verbatim>\<open>routes\<close> are the item routes.
\<close>

lemma contentLoaded_Some:
  assumes "openapiData c \<noteq> []"
  shows "contentLoaded h p (Some c) s =
     s \<lparr> created :=
           created s +
           mset (concat (map (\<lambda>item. [(docuHash h (item_pageId p item) @ ''.json'', JSON_stringify_item h item),
                                      (docuHash h (item_pageId p item) @ ''-description.md'', description item)])
                       (concat (map items (openapiData c))))) +
           {#(docuHash h (normalizeUrl h [apiBaseRoute h p, '':route'']) @ ''.json'',
              JSON_stringify_metadata h (sidebar p (openapiData c))
                (permalinkToSidebar
                  (map (\<lambda>item. RouteConfig (permalink item) (apiItemComponent (options p)) True
                     [(''openapi'', ModulePath (createData_path h (docuHash h (item_pageId p item) @ ''.json''))),
                      (''content'', ModuleImport True
                         (createData_path h (docuHash h (item_pageId p item) @ ''-description.md'')))]
                     []) (concat (map items (openapiData c))))))#},
         added :=
           added s @
           [RouteConfig (basePath h p) (apiLayoutComponent (options p)) False
              [(''docsMetadata'', ModulePath (createData_path h
                 (docuHash h (normalizeUrl h [apiBaseRoute h p, '':route'']) @ ''.json'')))]
              (map (\<lambda>item. RouteConfig (permalink item) (apiItemComponent (options p)) True
                     [(''openapi'', ModulePath (createData_path h (docuHash h (item_pageId p item) @ ''.json''))),
                      (''content'', ModuleImport True
                         (createData_path h (docuHash h (item_pageId p item) @ ''-description.md'')))]
                     []) (concat (map items (openapiData c))))] \<rparr>"
  using assms
  by (simp add: contentLoaded_def Object_keys_def promises_flat Promise_all_item_promise
      createData_def addRoute_def Let_def del: mset_concat)

text \<open>
  The lookup from permalinks to the sidebar: its keys and its values.
\<close>

lemma dom_permalinkToSidebar_aux:
  "dom (foldl (\<lambda>acc item. object_set acc (path item) v) m rs) =
     dom m \<union> (path ` set rs - {''__proto__''})"
  by (induction rs arbitrary: m) (auto simp: object_set_def)

lemma dom_permalinkToSidebar: "dom (permalinkToSidebar rs) = path ` set rs - {''__proto__''}"
  by (simp add: permalinkToSidebar_def dom_permalinkToSidebar_aux)

lemma ran_permalinkToSidebar_aux:
  "foldl (\<lambda>acc item. object_set acc (path item) v) m rs k = Some w \<Longrightarrow> w = v \<or> m k = Some w"
proof (induction rs arbitrary: m)
  case Nil
  then show ?case by simp
next
  case (Cons r rs)
  from Cons.prems have "foldl (\<lambda>acc item. object_set acc (path item) v) (object_set m (path r) v) rs k = Some w"
    by simp
  then have "w = v \<or> object_set m (path r) v k = Some w"
    by (rule Cons.IH)
  then show ?case
    by (auto simp: object_set_def split: if_splits)
qed

lemma ran_permalinkToSidebar: "permalinkToSidebar rs k = Some w \<Longrightarrow> w = ''sidebar''"
  using ran_permalinkToSidebar_aux [of "''sidebar''" Map.empty rs k w]
  by (simp add: permalinkToSidebar_def)

lemma card_permalinkToSidebar:
  assumes "distinct (map path rs)" and "''__proto__'' \<notin> path ` set rs"
  shows "card (dom (permalinkToSidebar rs)) = length rs"
proof -
  have "dom (permalinkToSidebar rs) = set (map path rs)"
    using assms(2) by (simp add: dom_permalinkToSidebar)
  then show ?thesis
    using assms(1) distinct_card [of "map path rs"] by simp
qed

text \<open>
  The sidebar has the shape of the list of sections.
\<close>

lemma sidebar_shape:
  "length (sidebar p data) = length data"
  "map (\<lambda>category. length (category_items category)) (sidebar p data) =
     map (\<lambda>section. length (items section)) data"
  "map category_label (sidebar p data) = map title data"
  by (simp_all add: sidebar_def comp_def)

text \<open>
  Claim C3, as amended. For a content with at least one section, \<^verbatim>\<open>contentLoaded\<close> calls
  \<^verbatim>\<open>addRoute\<close> once, with a route whose \<^verbatim>\<open>routes\<close> are the item routes: as many as the sum of
  the item counts of the sections, with the items' permalinks as paths, in order. The
  sidebar written to the metadata file has one category for every section, in the order of
  the sections, each with the title and the item count of its section.
\<close>

theorem contentLoaded_counts:
  assumes "openapiData c \<noteq> []"
  shows "\<exists>aggregate.
     added (contentLoaded h p (Some c) s) = added s @ [aggregate] \<and>
     length (routes aggregate) = sum_list (map (\<lambda>section. length (items section)) (openapiData c)) \<and>
     map path (routes aggregate) = map permalink (concat (map items (openapiData c))) \<and>
     (docuHash h (normalizeUrl h [apiBaseRoute h p, '':route'']) @ ''.json'',
      JSON_stringify_metadata h (sidebar p (openapiData c)) (permalinkToSidebar (routes aggregate)))
       \<in># created (contentLoaded h p (Some c) s) \<and>
     length (sidebar p (openapiData c)) = length (openapiData c) \<and>
     map (\<lambda>category. length (category_items category)) (sidebar p (openapiData c)) =
       map (\<lambda>section. length (items section)) (openapiData c) \<and>
     map category_label (sidebar p (openapiData c)) = map title (openapiData c)"
  by (simp add: contentLoaded_Some [OF assms] sidebar_shape length_concat comp_def)

text \<open>
  Claim C3, as amended, at a content with two sections of two items and one item.
\<close>

theorem contentLoaded_counts_witness:
  "openapiData example_content \<noteq> [] \<and>
   (\<exists>aggregate.
      added (contentLoaded example_host (pluginOpenAPI example_context no_opts) (Some example_content) empty_log) =
        [aggregate] \<and>
      length (routes aggregate) = 3 \<and>
      map path (routes aggregate) = [''/api/a'', ''/api/b'', ''/api/c'']) \<and>
   map (\<lambda>category. length (category_items category))
     (sidebar (pluginOpenAPI example_context no_opts) (openapiData example_content)) = [2, 1]"
  using contentLoaded_counts [of example_content example_host "pluginOpenAPI example_context no_opts" empty_log]
  by (auto simp: example_content_def example_item_def empty_log_def)

text \<open>
  Claim C3 as stated fails at the content with no section (N = 0): no route is registered,
  where the claim has exactly one aggregate route.
\<close>

theorem contentLoaded_counts_counterexample:
  "added (contentLoaded example_host (pluginOpenAPI example_context no_opts)
            (Some \<lparr> openapiData = [] \<rparr>) empty_log) = [] \<and>
   created (contentLoaded example_host (pluginOpenAPI example_context no_opts)
            (Some \<lparr> openapiData = [] \<rparr>) empty_log) = {#}"
  by (simp add: contentLoaded_def Object_keys_def empty_log_def)

lemma permalinkToSidebar_card_items:
  assumes "map path rs = map permalink its"
    and "distinct (map permalink its)"
    and "''__proto__'' \<notin> permalink ` set its"
  shows "card (dom (permalinkToSidebar rs)) = length rs"
proof -
  have "path ` set rs = set (map path rs)" by simp
  also have "\<dots> = permalink ` set its" by (simp only: assms(1) set_map)
  finally have "''__proto__'' \<notin> path ` set rs" using assms(3) by simp
  moreover have "distinct (map path rs)" using assms(1,2) by simp
  ultimately show ?thesis by (simp add: card_permalinkToSidebar)
qed

text \<open>
  Claim C4, as amended. For a content with at least one section, the lookup written to the
  metadata file is built from the item routes; its keys are the paths of the item routes
  other than \<^verbatim>\<open>__proto__\<close>, and every value is the string \<^verbatim>\<open>sidebar\<close>. When the permalinks of
  the items are pairwise distinct and none is \<^verbatim>\<open>__proto__\<close>, it has as many keys as there are
  item routes.
\<close>

theorem permalinkToSidebar_entries:
  assumes "openapiData c \<noteq> []"
  shows "\<exists>aggregate.
     added (contentLoaded h p (Some c) s) = added s @ [aggregate] \<and>
     (docuHash h (normalizeUrl h [apiBaseRoute h p, '':route'']) @ ''.json'',
      JSON_stringify_metadata h (sidebar p (openapiData c)) (permalinkToSidebar (routes aggregate)))
       \<in># created (contentLoaded h p (Some c) s) \<and>
     dom (permalinkToSidebar (routes aggregate)) = path ` set (routes aggregate) - {''__proto__''} \<and>
     (\<forall>key v. permalinkToSidebar (routes aggregate) key = Some v \<longrightarrow> v = ''sidebar'') \<and>
     (distinct (map permalink (concat (map items (openapiData c)))) \<and>
      ''__proto__'' \<notin> permalink ` set (concat (map items (openapiData c))) \<longrightarrow>
        card (dom (permalinkToSidebar (routes aggregate))) = length (routes aggregate))"
proof -
  let ?its = "concat (map items (openapiData c))"
  let ?routes = "map (\<lambda>item. RouteConfig (permalink item) (apiItemComponent (options p)) True
                     [(''openapi'', ModulePath (createData_path h (docuHash h (item_pageId p item) @ ''.json''))),
                      (''content'', ModuleImport True
                         (createData_path h (docuHash h (item_pageId p item) @ ''-description.md'')))]
                     []) ?its"
  let ?aggregate = "RouteConfig (basePath h p) (apiLayoutComponent (options p)) False
              [(''docsMetadata'', ModulePath (createData_path h
                 (docuHash h (normalizeUrl h [apiBaseRoute h p, '':route'']) @ ''.json'')))]
              ?routes"
  have sub: "routes ?aggregate = ?routes" by simp
  have paths: "map path ?routes = map permalink ?its"
    by (simp add: comp_def)
  have 1: "added (contentLoaded h p (Some c) s) = added s @ [?aggregate]"
    by (simp add: contentLoaded_Some [OF assms])
  have 2: "(docuHash h (normalizeUrl h [apiBaseRoute h p, '':route'']) @ ''.json'',
      JSON_stringify_metadata h (sidebar p (openapiData c)) (permalinkToSidebar (routes ?aggregate)))
       \<in># created (contentLoaded h p (Some c) s)"
    by (simp add: contentLoaded_Some [OF assms])
  have 3: "dom (permalinkToSidebar (routes ?aggregate)) = path ` set (routes ?aggregate) - {''__proto__''}"
    by (rule dom_permalinkToSidebar)
  have 4: "\<forall>key v. permalinkToSidebar (routes ?aggregate) key = Some v \<longrightarrow> v = ''sidebar''"
    using ran_permalinkToSidebar by blast
  have 5: "distinct (map permalink ?its) \<and> ''__proto__'' \<notin> permalink ` set ?its \<longrightarrow>
        card (dom (permalinkToSidebar (routes ?aggregate))) = length (routes ?aggregate)"
    unfolding sub using permalinkToSidebar_card_items [OF paths] by blast
  from 1 2 3 4 5 show ?thesis
    by (intro exI [of _ ?aggregate] conjI)
qed

text \<open>
  Claim C4, as amended, at a content with three items of distinct permalinks.
\<close>

theorem permalinkToSidebar_entries_witness:
  "openapiData example_content \<noteq> [] \<and>
   distinct (map permalink (concat (map items (openapiData example_content)))) \<and>
   ''__proto__'' \<notin> permalink ` set (concat (map items (openapiData example_content))) \<and>
   (\<exists>aggregate.
      added (contentLoaded example_host (pluginOpenAPI example_context no_opts) (Some example_content) empty_log) =
        [aggregate] \<and>
      card (dom (permalinkToSidebar (routes aggregate))) = length (routes aggregate) \<and>
      (\<forall>key v. permalinkToSidebar (routes aggregate) key = Some v \<longrightarrow> v = ''sidebar''))"
proof -
  have 1: "openapiData example_content \<noteq> []"
    by (simp add: example_content_def)
  have 2: "distinct (map permalink (concat (map items (openapiData example_content))))"
    by (simp add: example_content_def example_item_def)
  have 3: "''__proto__'' \<notin> permalink ` set (concat (map items (openapiData example_content)))"
    by (simp add: example_content_def example_item_def)
  from permalinkToSidebar_entries [OF 1, of example_host "pluginOpenAPI example_context no_opts" empty_log]
  obtain aggregate where
    "added (contentLoaded example_host (pluginOpenAPI example_context no_opts) (Some example_content) empty_log) =
       added empty_log @ [aggregate]"
    "\<forall>key v. permalinkToSidebar (routes aggregate) key = Some v \<longrightarrow> v = ''sidebar''"
    "distinct (map permalink (concat (map items (openapiData example_content)))) \<and>
      ''__proto__'' \<notin> permalink ` set (concat (map items (openapiData example_content))) \<longrightarrow>
        card (dom (permalinkToSidebar (routes aggregate))) = length (routes aggregate)"
    by blast
  with 1 2 3 show ?thesis
    by (auto simp: empty_log_def)
qed

text \<open>
  Claim C4 as stated fails at a content whose two items have the same permalink: two item
  routes, one key.
\<close>

theorem permalinkToSidebar_entries_counterexample:
  "length (routes (last (added (contentLoaded example_host (pluginOpenAPI example_context no_opts)
       (Some duplicate_content) empty_log)))) = 2 \<and>
   card (dom (permalinkToSidebar (routes (last (added (contentLoaded example_host
       (pluginOpenAPI example_context no_opts) (Some duplicate_content) empty_log)))))) = 1"
proof -
  have ne: "openapiData duplicate_content \<noteq> []"
    by (simp add: duplicate_content_def)
  show ?thesis
    unfolding contentLoaded_Some [OF ne]
    by (simp add: duplicate_content_def example_item_def permalinkToSidebar_def object_set_def)
qed

text \<open>
  Claim C7. For a content with at least one section (a content with no section has no
  item), the data files created are, for every item, the file \<^verbatim>\<open>.json\<close> with the serialized
  item and the file \<^verbatim>\<open>-description.md\<close> with the item's description, and besides these only
  the metadata file. The route of an item has the item's permalink as its path, and its
  modules are the paths that \<^verbatim>\<open>createData\<close> returned for its two files.
\<close>

theorem contentLoaded_item_artifacts:
  assumes "openapiData c \<noteq> []"
  shows "\<exists>aggregate metadata.
     added (contentLoaded h p (Some c) s) = added s @ [aggregate] \<and>
     routes aggregate =
       map (\<lambda>item. RouteConfig (permalink item) (apiItemComponent (options p)) True
              [(''openapi'', ModulePath (createData_path h (docuHash h (item_pageId p item) @ ''.json''))),
               (''content'', ModuleImport True
                  (createData_path h (docuHash h (item_pageId p item) @ ''-description.md'')))]
              [])
           (concat (map items (openapiData c))) \<and>
     created (contentLoaded h p (Some c) s) =
       created s +
       mset (concat (map (\<lambda>item. [(docuHash h (item_pageId p item) @ ''.json'', JSON_stringify_item h item),
                                  (docuHash h (item_pageId p item) @ ''-description.md'', description item)])
                   (concat (map items (openapiData c))))) +
       {#metadata#}"
proof -
  let ?routes = "map (\<lambda>item. RouteConfig (permalink item) (apiItemComponent (options p)) True
                     [(''openapi'', ModulePath (createData_path h (docuHash h (item_pageId p item) @ ''.json''))),
                      (''content'', ModuleImport True
                         (createData_path h (docuHash h (item_pageId p item) @ ''-description.md'')))]
                     []) (concat (map items (openapiData c)))"
  let ?aggregate = "RouteConfig (basePath h p) (apiLayoutComponent (options p)) False
              [(''docsMetadata'', ModulePath (createData_path h
                 (docuHash h (normalizeUrl h [apiBaseRoute h p, '':route'']) @ ''.json'')))]
              ?routes"
  let ?metadata = "(docuHash h (normalizeUrl h [apiBaseRoute h p, '':route'']) @ ''.json'',
      JSON_stringify_metadata h (sidebar p (openapiData c)) (permalinkToSidebar ?routes))"
  have 1: "added (contentLoaded h p (Some c) s) = added s @ [?aggregate]"
    by (simp add: contentLoaded_Some [OF assms])
  have 2: "routes ?aggregate = ?routes" by simp
  have 3: "created (contentLoaded h p (Some c) s) =
       created s +
       mset (concat (map (\<lambda>item. [(docuHash h (item_pageId p item) @ ''.json'', JSON_stringify_item h item),
                                  (docuHash h (item_pageId p item) @ ''-description.md'', description item)])
                   (concat (map items (openapiData c))))) +
       {#?metadata#}"
    by (simp add: contentLoaded_Some [OF assms])
  from 1 2 3 show ?thesis
    by (intro exI [of _ ?aggregate] exI [of _ ?metadata] conjI)
qed

text \<open>
  Claim C7 at a content with one section of one item.
\<close>

theorem contentLoaded_item_artifacts_witness:
  "openapiData single_content \<noteq> [] \<and>
   (\<exists>aggregate metadata.
      added (contentLoaded example_host (pluginOpenAPI example_context no_opts) (Some single_content) empty_log) =
        [aggregate] \<and>
      routes aggregate =
        [RouteConfig ''/api/a'' ''@theme/ApiItem'' True
           [(''openapi'', ModulePath ''gen/site-api-a.json''),
            (''content'', ModuleImport True ''gen/site-api-a-description.md'')] []] \<and>
      created (contentLoaded example_host (pluginOpenAPI example_context no_opts) (Some single_content) empty_log) =
        {#(''site-api-a.json'', ''a''), (''site-api-a-description.md'', ''# a''), metadata#})"
proof -
  have 1: "openapiData single_content \<noteq> []"
    by (simp add: single_content_def)
  from contentLoaded_item_artifacts [OF 1, of example_host "pluginOpenAPI example_context no_opts" empty_log]
  obtain aggregate metadata where
    "added (contentLoaded example_host (pluginOpenAPI example_context no_opts) (Some single_content) empty_log) =
       added empty_log @ [aggregate]"
    "routes aggregate =
       map (\<lambda>item. RouteConfig (permalink item) (apiItemComponent (options (pluginOpenAPI example_context no_opts))) True
              [(''openapi'', ModulePath (createData_path example_host
                  (docuHash example_host (item_pageId (pluginOpenAPI example_context no_opts) item) @ ''.json''))),
               (''content'', ModuleImport True
                  (createData_path example_host
                    (docuHash example_host (item_pageId (pluginOpenAPI example_context no_opts) item) @ ''-description.md'')))]
              [])
           (concat (map items (openapiData single_content)))"
    "created (contentLoaded example_host (pluginOpenAPI example_context no_opts) (Some single_content) empty_log) =
       created empty_log +
       mset (concat (map (\<lambda>item.
           [(docuHash example_host (item_pageId (pluginOpenAPI example_context no_opts) item) @ ''.json'',
             JSON_stringify_item example_host item),
            (docuHash example_host (item_pageId (pluginOpenAPI example_context no_opts) item) @ ''-description.md'',
             description item)])
          (concat (map items (openapiData single_content))))) +
       {#metadata#}"
    by blast
  then have
    "added (contentLoaded example_host (pluginOpenAPI example_context no_opts) (Some single_content) empty_log) =
        [aggregate] \<and>
      routes aggregate =
        [RouteConfig ''/api/a'' ''@theme/ApiItem'' True
           [(''openapi'', ModulePath ''gen/site-api-a.json''),
            (''content'', ModuleImport True ''gen/site-api-a-description.md'')] []] \<and>
      created (contentLoaded example_host (pluginOpenAPI example_context no_opts) (Some single_content) empty_log) =
        {#(''site-api-a.json'', ''a''), (''site-api-a-description.md'', ''# a''), metadata#}"
    by (simp add: single_content_def example_item_def empty_log_def example_host_def
        example_plugin item_pageId_def)
  with 1 show ?thesis by blast
qed

text \<open>
  Arrays without holes: \<^verbatim>\<open>filter\<close>, \<^verbatim>\<open>findIndex\<close> and \<^verbatim>\<open>delete\<close> on the array of a list of routes.
\<close>

lemma array_filter_dense: "array_filter f (map Some rs) = map Some (filter f rs)"
  by (induction rs) (simp_all add: array_filter_def)




lemma findIndex_from_first:
  assumes "i < length rs"
    and "component (rs ! i) = apiLayoutComponent (options p) \<and> path (rs ! i) = homePageDocsRoutePath p"
    and "\<forall>j<i. \<not> (component (rs ! j) = apiLayoutComponent (options p) \<and> path (rs ! j) = homePageDocsRoutePath p)"
  shows "findIndex_from k (is_docsHomePageRoute p) (map Some rs) = Inr (int (k + i))"
  using assms
proof (induction rs arbitrary: i k)
  case Nil
  then show ?case by simp
next
  case (Cons r rs)
  show ?case
  proof (cases i)
    case 0
    with Cons.prems show ?thesis by (simp add: is_docsHomePageRoute_def)
  next
    case (Suc n)
    from Cons.prems(3) Suc have head: "\<not> (component r = apiLayoutComponent (options p) \<and> path r = homePageDocsRoutePath p)"
      by auto
    from Cons.prems Suc have "n < length rs"
      and "component (rs ! n) = apiLayoutComponent (options p) \<and> path (rs ! n) = homePageDocsRoutePath p"
      and "\<forall>j<n. \<not> (component (rs ! j) = apiLayoutComponent (options p) \<and> path (rs ! j) = homePageDocsRoutePath p)"
      by auto
    from Cons.IH [OF this, of "Suc k"] head Suc show ?thesis
      by (simp add: is_docsHomePageRoute_def)
  qed
qed


lemma routesLoaded_delete:
  assumes "1 < length (filter (\<lambda>r. path r = homePageDocsRoutePath p) rs)"
    and "i < length rs"
    and "component (rs ! i) = apiLayoutComponent (options p) \<and> path (rs ! i) = homePageDocsRoutePath p"
    and "\<forall>j<i. \<not> (component (rs ! j) = apiLayoutComponent (options p) \<and> path (rs ! j) = homePageDocsRoutePath p)"
  shows "routesLoaded p (map Some rs) = Inr ((map Some rs)[i := None])"
  using assms(1,2) findIndex_from_first [OF assms(2,3,4), of 0]
  by (simp add: routesLoaded_def array_filter_dense findIndex_def array_delete_def)





text \<open>
  Claim C9. When more than one route has the home path and \<open>i\<close> is the first index whose
  route has the layout component and the home path, \<^verbatim>\<open>routesLoaded\<close> returns an array of the
  same length, with a hole at \<open>i\<close> and the route it had at every other index.
\<close>

theorem routesLoaded_delete_leaves_hole:
  assumes "1 < length (filter (\<lambda>r. path r = homePageDocsRoutePath p) rs)"
    and "i < length rs"
    and "component (rs ! i) = apiLayoutComponent (options p) \<and> path (rs ! i) = homePageDocsRoutePath p"
    and "\<forall>j<i. \<not> (component (rs ! j) = apiLayoutComponent (options p) \<and> path (rs ! j) = homePageDocsRoutePath p)"
  shows "\<exists>routes'. routesLoaded p (map Some rs) = Inr routes' \<and>
           length routes' = length rs \<and>
           routes' ! i = None \<and>
           (\<forall>j<length rs. j \<noteq> i \<longrightarrow> routes' ! j = Some (rs ! j))"
proof -
  have "routesLoaded p (map Some rs) = Inr ((map Some rs)[i := None])"
    using assms by (rule routesLoaded_delete)
  moreover have "length ((map Some rs)[i := None]) = length rs" by simp
  moreover have "(map Some rs)[i := None] ! i = None" using assms(2) by simp
  moreover have "\<forall>j<length rs. j \<noteq> i \<longrightarrow> (map Some rs)[i := None] ! j = Some (rs ! j)" by simp
  ultimately show ?thesis by blast
qed

text \<open>
  Claim C9 at the list of three routes: the third slot becomes a hole.
\<close>

theorem routesLoaded_delete_leaves_hole_witness:
  "routesLoaded (pluginOpenAPI example_context no_opts) (map Some example_routes) =
     Inr [Some (RouteConfig ''/'' ''@theme/Home'' True [] []),
          Some (RouteConfig ''api'' ''@site/src/pages/api.js'' True [] []),
          None]"
proof -
  let ?p = "pluginOpenAPI example_context no_opts"
  have 1: "1 < length (filter (\<lambda>r. path r = homePageDocsRoutePath ?p) example_routes)"
    by (simp add: example_plugin example_routes_def)
  have 2: "2 < length example_routes" by (simp add: example_routes_def)
  have 3: "component (example_routes ! 2) = apiLayoutComponent (options ?p) \<and>
           path (example_routes ! 2) = homePageDocsRoutePath ?p"
    by (simp add: example_plugin example_routes_def)
  have 4: "\<forall>j<2. \<not> (component (example_routes ! j) = apiLayoutComponent (options ?p) \<and>
           path (example_routes ! j) = homePageDocsRoutePath ?p)"
    by (simp add: example_plugin example_routes_def less_Suc_eq numeral_2_eq_2)
  from routesLoaded_delete_leaves_hole [OF 1 2 3 4]
  obtain routes' where r: "routesLoaded ?p (map Some example_routes) = Inr routes'"
    "length routes' = length example_routes" "routes' ! 2 = None"
    "\<forall>j<length example_routes. j \<noteq> 2 \<longrightarrow> routes' ! j = Some (example_routes ! j)"
    by blast
  from r(2) obtain a b c where abc: "routes' = [a, b, c]"
    by (auto simp: example_routes_def length_Suc_conv numeral_3_eq_3)
  from r(4) have "routes' ! 0 = Some (example_routes ! 0)" "routes' ! 1 = Some (example_routes ! 1)"
    by (simp_all add: example_routes_def)
  with r(3) abc have "routes' = [Some (example_routes ! 0), Some (example_routes ! 1), None]"
    by simp
  with r(1) show ?thesis by (simp add: example_routes_def)
qed



end
